theory Spec2Isabelle
  imports Main "HOL-Library.AList"
begin

section \<open>Data model (types.ts)\<close>

text \<open>
  JavaScript strings are modelled as \<^typ>\<open>string\<close>; a character outside ASCII stands
  for its UTF-8 bytes. The empty string is the only falsy string, so a test
  \<^verbatim>\<open>!s\<close> on a string is \<open>s = []\<close>.
\<close>

record TeachingStrategies =
  miniWhiteboards :: bool
  thinkPairShare :: bool
  dumtums :: bool
  coldCalling :: bool

text \<open>
  The field \<^verbatim>\<open>id\<close> of the source is named \<open>id_str\<close> here, \<open>id\<close> being the identity
  function of HOL. \<^verbatim>\<open>yearGroup\<close> has the type \<^verbatim>\<open>YearGroup | ''\<close>, a string at run time.
\<close>

record Observation =
  id_str :: string
  dateTime :: string
  yearGroup :: string
  teacherName :: string
  observationNotes :: string
  strategies :: TeachingStrategies

section \<open>Constants (constants.ts)\<close>

datatype StrategyKey = K_miniWhiteboards | K_thinkPairShare | K_dumtums | K_coldCalling

definition YEAR_GROUPS :: "string list" where
  "YEAR_GROUPS = [''Year 7'', ''Year 8'', ''Year 9'', ''Year 10'', ''Year 11'']"

definition STRATEGY_KEYS :: "StrategyKey list" where
  "STRATEGY_KEYS = [K_miniWhiteboards, K_thinkPairShare, K_dumtums, K_coldCalling]"

text \<open>An object literal keeps its properties in the order they are written.\<close>

definition STRATEGY_LABELS :: "(StrategyKey \<times> string) list" where
  "STRATEGY_LABELS =
     [(K_miniWhiteboards, ''Use of mini whiteboards''),
      (K_thinkPairShare, ''Think-Pair-Share''),
      (K_dumtums, ''DUMTUMS''),
      (K_coldCalling, ''Cold calling'')]"


text \<open>\<^verbatim>\<open>strategies[key]\<close>\<close>

fun strategy_at :: "TeachingStrategies \<Rightarrow> StrategyKey \<Rightarrow> bool" where
  "strategy_at s K_miniWhiteboards = miniWhiteboards s"
| "strategy_at s K_thinkPairShare = thinkPairShare s"
| "strategy_at s K_dumtums = dumtums s"
| "strategy_at s K_coldCalling = coldCalling s"

section \<open>The runtime: clock and ISO rendering\<close>

text \<open>
  \<^verbatim>\<open>new Date().toISOString()\<close> renders the time value of the clock (milliseconds since
  the epoch, UTC) as \<^verbatim>\<open>YYYY-MM-DDTHH:mm:ss.sssZ\<close>, with a sign and six digits for a
  year outside 0..9999 (ECMA-262, Date.prototype.toISOString). The time value is an
  argument of every operation that reads the clock.
\<close>

fun digits :: "nat \<Rightarrow> nat \<Rightarrow> string" where
  "digits 0 n = []"
| "digits (Suc k) n = digits k (n div 10) @ [char_of (48 + n mod 10)]"

definition civil_from_days :: "int \<Rightarrow> int \<times> nat \<times> nat" where
  "civil_from_days z0 =
     (let z = z0 + 719468;
          era = z div 146097;
          doe = z - era * 146097;
          yoe = (doe - doe div 1460 + doe div 36524 - doe div 146096) div 365;
          y = yoe + era * 400;
          doy = doe - (365 * yoe + yoe div 4 - yoe div 100);
          mp = (5 * doy + 2) div 153;
          d = doy - (153 * mp + 2) div 5 + 1;
          m = (if mp < 10 then mp + 3 else mp - 9)
      in (if m \<le> 2 then y + 1 else y, nat m, nat d))"

definition year_string :: "int \<Rightarrow> string" where
  "year_string y =
     (if 0 \<le> y \<and> y \<le> 9999 then digits 4 (nat y)
      else (if y < 0 then ''-'' else ''+'') @ digits 6 (nat \<bar>y\<bar>))"

definition toISOString :: "int \<Rightarrow> string" where
  "toISOString t =
     (let day = t div 86400000;
          ms = nat (t mod 86400000);
          (y, m, d) = civil_from_days day
      in year_string y @ ''-'' @ digits 2 m @ ''-'' @ digits 2 d @ ''T'' @
         digits 2 (ms div 3600000) @ '':'' @ digits 2 (ms div 60000 mod 60) @ '':'' @
         digits 2 (ms div 1000 mod 60) @ ''.'' @ digits 3 (ms mod 1000) @ ''Z'')"

section \<open>Component state and effects (App.tsx)\<close>

text \<open>
  The three \<^verbatim>\<open>useState\<close> cells of \<^verbatim>\<open>App\<close> are one record; a handler takes the state
  and returns the next state with the effects it has on the outside, in order.
\<close>

record AppState =
  observations :: "Observation list"
  formState :: Observation
  selectedObservation :: "Observation option"

datatype effect =
    Alert string
  | ConsoleError string
  | Navigate string
  | Download string string

definition initialStrategies :: TeachingStrategies where
  "initialStrategies =
     \<lparr>miniWhiteboards = False, thinkPairShare = False, dumtums = False, coldCalling = False\<rparr>"

definition getInitialFormState :: Observation where
  "getInitialFormState =
     \<lparr>id_str = [], dateTime = [], yearGroup = [], teacherName = [],
      observationNotes = [], strategies = initialStrategies\<rparr>"

definition resetForm :: "AppState \<Rightarrow> AppState" where
  "resetForm st = st\<lparr>formState := getInitialFormState\<rparr>"

text \<open>\<^verbatim>\<open>isFormValid\<close>: the conjunction of the three strings, read as a truth value.\<close>

definition isFormValid :: "Observation \<Rightarrow> bool" where
  "isFormValid f \<longleftrightarrow> dateTime f \<noteq> [] \<and> teacherName f \<noteq> [] \<and> yearGroup f \<noteq> []"

text \<open>\<^verbatim>\<open>{ ...formState, id: new Date().toISOString() }\<close>\<close>

definition newObservation :: "int \<Rightarrow> Observation \<Rightarrow> Observation" where
  "newObservation now f = f\<lparr>id_str := toISOString now\<rparr>"

definition handleSave :: "int \<Rightarrow> AppState \<Rightarrow> AppState \<times> effect list" where
  "handleSave now st =
     (if dateTime (formState st) = [] \<or> teacherName (formState st) = [] \<or>
         yearGroup (formState st) = []
      then (st, [Alert ''Please fill in Date/Time, Teacher Name, and Year Group.''])
      else (resetForm (st\<lparr>observations := newObservation now (formState st) # observations st\<rparr>),
            []))"

section \<open>The runtime: dates of the local time zone\<close>

text \<open>
  The program makes a Date from a string, \<^verbatim>\<open>new Date(s)\<close>, and sees it only through
  renderings in the local time zone. So a Date is modelled by its fields in local time,
  and an invalid Date by \<open>None\<close>.
\<close>

record LocalTime =
  localYear :: int
  localMonth :: nat
  localDay :: nat
  localHour :: nat
  localMinute :: nat

definition is_digit :: "char \<Rightarrow> bool" where
  "is_digit c \<longleftrightarrow> 48 \<le> (of_char c :: nat) \<and> (of_char c :: nat) \<le> 57"

definition digits_value :: "string \<Rightarrow> nat" where
  "digits_value s = foldl (\<lambda>n c. 10 * n + (of_char c - 48)) 0 s"

definition leap_year :: "nat \<Rightarrow> bool" where
  "leap_year y \<longleftrightarrow> y mod 4 = 0 \<and> (y mod 100 \<noteq> 0 \<or> y mod 400 = 0)"

definition days_in_month :: "nat \<Rightarrow> nat \<Rightarrow> nat" where
  "days_in_month y m =
     (if m = 2 then (if leap_year y then 29 else 28)
      else if m = 4 \<or> m = 6 \<or> m = 9 \<or> m = 11 then 30
      else 31)"

text \<open>
  The value of the input of type \<^verbatim>\<open>datetime-local\<close> is a string \<^verbatim>\<open>YYYY-MM-DDTHH:mm\<close>. It is
  a form of the date-time string format of ECMA-262 (21.4.1.32) without a UTC offset,
  which \<^verbatim>\<open>Date.parse\<close> reads as a local time. \<open>parse_datetime_local\<close> reads the
  strings of this form whose fields name a day of the calendar and a time of the day.
\<close>

fun parse_datetime_local :: "string \<Rightarrow> LocalTime option" where
  "parse_datetime_local [y1, y2, y3, y4, s1, m1, m2, s2, d1, d2, t, h1, h2, c, n1, n2] =
     (if s1 = CHR ''-'' \<and> s2 = CHR ''-'' \<and> t = CHR ''T'' \<and> c = CHR '':'' \<and>
         list_all is_digit [y1, y2, y3, y4, m1, m2, d1, d2, h1, h2, n1, n2] \<and>
         1 \<le> digits_value [m1, m2] \<and> digits_value [m1, m2] \<le> 12 \<and>
         1 \<le> digits_value [d1, d2] \<and>
         digits_value [d1, d2] \<le> days_in_month (digits_value [y1, y2, y3, y4]) (digits_value [m1, m2]) \<and>
         digits_value [h1, h2] \<le> 23 \<and> digits_value [n1, n2] \<le> 59
      then Some \<lparr>localYear = int (digits_value [y1, y2, y3, y4]),
                 localMonth = digits_value [m1, m2], localDay = digits_value [d1, d2],
                 localHour = digits_value [h1, h2], localMinute = digits_value [n1, n2]\<rparr>
      else None)"
| "parse_datetime_local _ = None"

text \<open>
  What is left to the browser:
  \<^item> \<open>parseOther\<close>: the Date made from any other string (the other forms of the format,
    and whatever else the implementation recognises), \<open>None\<close> when the string is not
    recognised;
  \<^item> \<open>resolveLocal\<close>: the local time of the Date made from a local time, which is that
    time itself unless the time zone skips it (\<^verbatim>\<open>LocalTime(UTC(t))\<close> of ECMA-262);
  \<^item> \<open>formatYear\<close>: how the locale data write a year that has not four digits;
  \<^item> \<open>toLocaleTimeString_hm\<close>: what
    \<^verbatim>\<open>new Date(s).toLocaleTimeString([], {hour: '2-digit', minute: '2-digit'})\<close>
    returns, in the default locale of the browser, as a function of the string \<open>s\<close>;
  \<^item> \<open>downloadAttr\<close>: the test \<^verbatim>\<open>link.download !== undefined\<close>.
\<close>

record Platform =
  parseOther :: "string \<Rightarrow> LocalTime option"
  resolveLocal :: "LocalTime \<Rightarrow> LocalTime"
  formatYear :: "int \<Rightarrow> string"
  toLocaleTimeString_hm :: "string \<Rightarrow> string"
  downloadAttr :: bool

text \<open>\<^verbatim>\<open>new Date(s)\<close>\<close>

definition new_Date :: "Platform \<Rightarrow> string \<Rightarrow> LocalTime option" where
  "new_Date P s =
     (case parse_datetime_local s of
        Some t \<Rightarrow> Some (resolveLocal P t)
      | None \<Rightarrow> parseOther P s)"

text \<open>
  \<^verbatim>\<open>new Date(s).toLocaleDateString('en-CA')\<close>: the text \<^verbatim>\<open>Invalid Date\<close> for an invalid
  Date (ECMA-402), and else the local date in the pattern \<^verbatim>\<open>y-MM-dd\<close> of the locale
  en-CA, on which the comment \<^verbatim>\<open>// YYYY-MM-DD format\<close> of the source relies: the year with
  its digits, month and day with two digits.
\<close>

definition toLocaleDateString_enCA :: "Platform \<Rightarrow> string \<Rightarrow> string" where
  "toLocaleDateString_enCA P s =
     (case new_Date P s of
        None \<Rightarrow> ''Invalid Date''
      | Some t \<Rightarrow>
          (if 1000 \<le> localYear t \<and> localYear t \<le> 9999 then digits 4 (nat (localYear t))
           else formatYear P (localYear t))
          @ ''-'' @ digits 2 (localMonth t) @ ''-'' @ digits 2 (localDay t))"

section \<open>The runtime: array and string methods\<close>

text \<open>\<^verbatim>\<open>Array.prototype.join\<close> on an array of strings.\<close>

fun join :: "string \<Rightarrow> string list \<Rightarrow> string" where
  "join sep [] = []"
| "join sep [x] = x"
| "join sep (x # y # ys) = x @ sep @ join sep (y # ys)"

text \<open>\<^verbatim>\<open>String.prototype.split\<close> with a separator of one character.\<close>

fun split_on :: "char \<Rightarrow> string \<Rightarrow> string list" where
  "split_on sep [] = [[]]"
| "split_on sep (c # cs) =
     (if c = sep then [] # split_on sep cs
      else (case split_on sep cs of [] \<Rightarrow> [[c]] | l # ls \<Rightarrow> (c # l) # ls))"

text \<open>\<^verbatim>\<open>s.replace(/"/g, '""')\<close>: every match, left to right.\<close>

fun replace_quotes :: "string \<Rightarrow> string" where
  "replace_quotes [] = []"
| "replace_quotes (c # cs) =
     (if c = CHR 0x22 then CHR 0x22 # CHR 0x22 # replace_quotes cs
      else c # replace_quotes cs)"

section \<open>CSV export (handleExport)\<close>

text \<open>\<^verbatim>\<open>Object.values(STRATEGY_LABELS)\<close>: the values in property order.\<close>

definition headers :: "string list" where
  "headers = [''Date'', ''Time'', ''Year Group'', ''Teacher Name'', ''Observation Notes'']
             @ map snd STRATEGY_LABELS"

definition sanitizedNotes :: "Observation \<Rightarrow> string" where
  "sanitizedNotes obs = [CHR 0x22] @ replace_quotes (observationNotes obs) @ [CHR 0x22]"

definition strategyValues :: "Observation \<Rightarrow> string list" where
  "strategyValues obs =
     map (\<lambda>key. if strategy_at (strategies obs) key then ''Y'' else ''N'') STRATEGY_KEYS"

definition csvFields :: "Platform \<Rightarrow> Observation \<Rightarrow> string list" where
  "csvFields P obs =
     [toLocaleDateString_enCA P (dateTime obs), toLocaleTimeString_hm P (dateTime obs),
      yearGroup obs, teacherName obs, sanitizedNotes obs] @ strategyValues obs"

definition csvRow :: "Platform \<Rightarrow> Observation \<Rightarrow> string" where
  "csvRow P obs = join '','' (csvFields P obs)"

definition csvRows :: "Platform \<Rightarrow> Observation list \<Rightarrow> string list" where
  "csvRows P obss = map (csvRow P) obss"

definition csvString :: "Platform \<Rightarrow> Observation list \<Rightarrow> string" where
  "csvString P obss = join ''\<newline>'' (join '','' headers # csvRows P obss)"

text \<open>\<^verbatim>\<open>`learning_walks_${new Date().toISOString().split('T')[0]}.csv`\<close>\<close>

definition exportFileName :: "int \<Rightarrow> string" where
  "exportFileName now =
     ''learning_walks_'' @ hd (split_on CHR ''T'' (toISOString now)) @ ''.csv''"

definition handleExport :: "Platform \<Rightarrow> int \<Rightarrow> AppState \<Rightarrow> effect list" where
  "handleExport P now st =
     (if length (observations st) = 0 then [Alert ''No observations to export.'']
      else if downloadAttr P
        then [Download (exportFileName now) (csvString P (observations st))]
        else [])"

section \<open>Feedback e-mail (handleEmail)\<close>










section \<open>The runtime: JSON\<close>

text \<open>
  \<^verbatim>\<open>JSON.stringify\<close> and \<^verbatim>\<open>JSON.parse\<close> (ECMA-262, 25.5) on the values the program
  stores: null, booleans, strings, arrays and objects. \<^verbatim>\<open>JSON.stringify\<close> without an
  indent writes no white space. The parser reads that grammar, with every escape of a
  string, by recursive descent; its fuel is the length of the text, which bounds the
  depth of the descent. Numbers and insignificant white space are not modelled: the
  program neither stores nor writes them.
\<close>

datatype json =
    JNull
  | JBool bool
  | JString string
  | JArray "json list"
  | JObject "(string \<times> json) list"

definition hex_lower :: "nat \<Rightarrow> char" where
  "hex_lower n = (if n < 10 then char_of (48 + n) else char_of (87 + n))"

definition quote_char :: "char \<Rightarrow> string" where
  "quote_char c =
     (if c = CHR 0x22 then [CHR 0x5C, CHR 0x22]
      else if c = CHR 0x5C then [CHR 0x5C, CHR 0x5C]
      else if c = CHR 0x08 then [CHR 0x5C, CHR ''b'']
      else if c = CHR 0x0C then [CHR 0x5C, CHR ''f'']
      else if c = CHR 0x0A then [CHR 0x5C, CHR ''n'']
      else if c = CHR 0x0D then [CHR 0x5C, CHR ''r'']
      else if c = CHR 0x09 then [CHR 0x5C, CHR ''t'']
      else if (of_char c :: nat) < 32
        then [CHR 0x5C, CHR ''u'', CHR ''0'', CHR ''0'',
              hex_lower (of_char c div 16), hex_lower (of_char c mod 16)]
      else [c])"

definition quoteJSONString :: "string \<Rightarrow> string" where
  "quoteJSONString s = [CHR 0x22] @ concat (map quote_char s) @ [CHR 0x22]"

fun JSON_stringify :: "json \<Rightarrow> string" where
  "JSON_stringify JNull = ''null''"
| "JSON_stringify (JBool b) = (if b then ''true'' else ''false'')"
| "JSON_stringify (JString s) = quoteJSONString s"
| "JSON_stringify (JArray vs) = ''['' @ join '','' (map JSON_stringify vs) @ '']''"
| "JSON_stringify (JObject kvs) =
     ''{'' @ join '','' (map (\<lambda>kv. quoteJSONString (fst kv) @ '':'' @ JSON_stringify (snd kv)) kvs)
     @ ''}''"

definition hex_value :: "char \<Rightarrow> nat option" where
  "hex_value c =
     (let n = of_char c :: nat
      in if 48 \<le> n \<and> n \<le> 57 then Some (n - 48)
         else if 97 \<le> n \<and> n \<le> 102 then Some (n - 87)
         else if 65 \<le> n \<and> n \<le> 70 then Some (n - 55)
         else None)"

fun hex4 :: "string \<Rightarrow> nat option" where
  "hex4 [a, b, c, d] =
     (case (hex_value a, hex_value b, hex_value c, hex_value d) of
        (Some x, Some y, Some z, Some w) \<Rightarrow> Some (((x * 16 + y) * 16 + z) * 16 + w)
      | _ \<Rightarrow> None)"
| "hex4 _ = None"

definition utf8_encode :: "nat \<Rightarrow> string" where
  "utf8_encode cp =
     (if cp < 128 then [char_of cp]
      else if cp < 2048 then [char_of (192 + cp div 64), char_of (128 + cp mod 64)]
      else [char_of (224 + cp div 4096), char_of (128 + cp div 64 mod 64),
            char_of (128 + cp mod 64)])"

definition unescape :: "char \<Rightarrow> char option" where
  "unescape e =
     (if e = CHR 0x22 \<or> e = CHR 0x5C \<or> e = CHR ''/'' then Some e
      else if e = CHR ''b'' then Some (CHR 0x08)
      else if e = CHR ''f'' then Some (CHR 0x0C)
      else if e = CHR ''n'' then Some (CHR 0x0A)
      else if e = CHR ''r'' then Some (CHR 0x0D)
      else if e = CHR ''t'' then Some (CHR 0x09)
      else None)"

fun parse_chars :: "string \<Rightarrow> (string \<times> string) option"
  and parse_escape :: "string \<Rightarrow> (string \<times> string) option" where
  "parse_chars [] = None"
| "parse_chars (c # cs) =
     (if c = CHR 0x22 then Some ([], cs)
      else if c = CHR 0x5C then parse_escape cs
      else if (of_char c :: nat) < 32 then None
      else map_option (apfst ((#) c)) (parse_chars cs))"
| "parse_escape [] = None"
| "parse_escape (e # cs) =
     (if e = CHR ''u'' then
        (case hex4 (take 4 cs) of
           None \<Rightarrow> None
         | Some cp \<Rightarrow> map_option (apfst ((@) (utf8_encode cp))) (parse_chars (drop 4 cs)))
      else
        (case unescape e of
           None \<Rightarrow> None
         | Some d \<Rightarrow> map_option (apfst ((#) d)) (parse_chars cs)))"

fun parse_value :: "nat \<Rightarrow> string \<Rightarrow> (json \<times> string) option"
  and parse_elements :: "nat \<Rightarrow> string \<Rightarrow> (json list \<times> string) option"
  and parse_members :: "nat \<Rightarrow> string \<Rightarrow> ((string \<times> json) list \<times> string) option" where
  "parse_value 0 s = None"
| "parse_value (Suc n) s =
     (if take 4 s = ''null'' then Some (JNull, drop 4 s)
      else if take 4 s = ''true'' then Some (JBool True, drop 4 s)
      else if take 5 s = ''false'' then Some (JBool False, drop 5 s)
      else if take 1 s = [CHR 0x22] then map_option (apfst JString) (parse_chars (drop 1 s))
      else if take 2 s = ''[]'' then Some (JArray [], drop 2 s)
      else if take 1 s = ''['' then map_option (apfst JArray) (parse_elements n (drop 1 s))
      else if take 2 s = ''{}'' then Some (JObject [], drop 2 s)
      else if take 1 s = ''{'' then map_option (apfst JObject) (parse_members n (drop 1 s))
      else None)"
| "parse_elements 0 s = None"
| "parse_elements (Suc n) s =
     (case parse_value n s of
        None \<Rightarrow> None
      | Some (v, r) \<Rightarrow>
          if take 1 r = '','' then map_option (apfst ((#) v)) (parse_elements n (drop 1 r))
          else if take 1 r = '']'' then Some ([v], drop 1 r)
          else None)"
| "parse_members 0 s = None"
| "parse_members (Suc n) s =
     (if take 1 s = [CHR 0x22] then
        (case parse_chars (drop 1 s) of
           None \<Rightarrow> None
         | Some (k, r) \<Rightarrow>
             if take 1 r = '':'' then
               (case parse_value n (drop 1 r) of
                  None \<Rightarrow> None
                | Some (v, r') \<Rightarrow>
                    if take 1 r' = '','' then
                      map_option (apfst ((#) (k, v))) (parse_members n (drop 1 r'))
                    else if take 1 r' = ''}'' then Some ([(k, v)], drop 1 r')
                    else None)
             else None)
      else None)"

datatype js_error = SyntaxError | QuotaExceededError

definition JSON_parse :: "string \<Rightarrow> js_error + json" where
  "JSON_parse s =
     (case parse_value (length s) s of
        Some (v, []) \<Rightarrow> Inr v
      | _ \<Rightarrow> Inl SyntaxError)"

section \<open>Persistence (the two effects of App)\<close>

text \<open>
  \<^verbatim>\<open>JSON.stringify\<close> writes the own properties of an object in the order of their
  creation: of an observation \<^verbatim>\<open>id\<close>, \<^verbatim>\<open>dateTime\<close>, \<^verbatim>\<open>yearGroup\<close>, \<^verbatim>\<open>teacherName\<close>,
  \<^verbatim>\<open>observationNotes\<close>, \<^verbatim>\<open>strategies\<close> (the order of \<^verbatim>\<open>getInitialFormState\<close>, which the
  spreads of the handlers keep).
\<close>

definition strategies_toJSON :: "TeachingStrategies \<Rightarrow> json" where
  "strategies_toJSON s =
     JObject [(''miniWhiteboards'', JBool (miniWhiteboards s)),
              (''thinkPairShare'', JBool (thinkPairShare s)),
              (''dumtums'', JBool (dumtums s)),
              (''coldCalling'', JBool (coldCalling s))]"

definition observation_toJSON :: "Observation \<Rightarrow> json" where
  "observation_toJSON obs =
     JObject [(''id'', JString (id_str obs)),
              (''dateTime'', JString (dateTime obs)),
              (''yearGroup'', JString (yearGroup obs)),
              (''teacherName'', JString (teacherName obs)),
              (''observationNotes'', JString (observationNotes obs)),
              (''strategies'', strategies_toJSON (strategies obs))]"

definition observations_toJSON :: "Observation list \<Rightarrow> json" where
  "observations_toJSON obss = JArray (map observation_toJSON obss)"

text \<open>
  The value that \<^verbatim>\<open>JSON.parse\<close> returns becomes the state, of type \<^verbatim>\<open>Observation[]\<close>,
  unchecked. The typed reading of a value: an array of objects whose properties, read
  by name (the last of equal names counts), have the types of the interface. A value
  with no such reading is outside the state type.
\<close>

definition get_prop :: "(string \<times> json) list \<Rightarrow> string \<Rightarrow> json option" where
  "get_prop kvs k = map_of (rev kvs) k"

fun as_string :: "json option \<Rightarrow> string option" where
  "as_string (Some (JString s)) = Some s"
| "as_string _ = None"

fun as_bool :: "json option \<Rightarrow> bool option" where
  "as_bool (Some (JBool b)) = Some b"
| "as_bool _ = None"

fun strategies_ofJSON :: "json option \<Rightarrow> TeachingStrategies option" where
  "strategies_ofJSON (Some (JObject kvs)) =
     (case (as_bool (get_prop kvs ''miniWhiteboards''), as_bool (get_prop kvs ''thinkPairShare''),
            as_bool (get_prop kvs ''dumtums''), as_bool (get_prop kvs ''coldCalling'')) of
        (Some a, Some b, Some c, Some d) \<Rightarrow>
          Some \<lparr>miniWhiteboards = a, thinkPairShare = b, dumtums = c, coldCalling = d\<rparr>
      | _ \<Rightarrow> None)"
| "strategies_ofJSON _ = None"

fun observation_ofJSON :: "json \<Rightarrow> Observation option" where
  "observation_ofJSON (JObject kvs) =
     (case (as_string (get_prop kvs ''id''), as_string (get_prop kvs ''dateTime''),
            as_string (get_prop kvs ''yearGroup''), as_string (get_prop kvs ''teacherName''),
            as_string (get_prop kvs ''observationNotes''),
            strategies_ofJSON (get_prop kvs ''strategies'')) of
        (Some i, Some d, Some y, Some t, Some n, Some s) \<Rightarrow>
          Some \<lparr>id_str = i, dateTime = d, yearGroup = y, teacherName = t,
                observationNotes = n, strategies = s\<rparr>
      | _ \<Rightarrow> None)"
| "observation_ofJSON _ = None"

fun all_some :: "'a option list \<Rightarrow> 'a list option" where
  "all_some [] = Some []"
| "all_some (None # xs) = None"
| "all_some (Some x # xs) = map_option ((#) x) (all_some xs)"

fun observations_ofJSON :: "json \<Rightarrow> Observation list option" where
  "observations_ofJSON (JArray vs) = all_some (map observation_ofJSON vs)"
| "observations_ofJSON _ = None"

text \<open>
  \<^verbatim>\<open>localStorage\<close>: the stored items, in order of their keys' first writing, and the
  quota of the origin: \<^verbatim>\<open>setItem\<close> throws when the items would not fit.
\<close>

record Storage =
  items :: "(string \<times> string) list"
  quota :: nat

definition usage :: "(string \<times> string) list \<Rightarrow> nat" where
  "usage kvs = sum_list (map (\<lambda>kv. length (fst kv) + length (snd kv)) kvs)"

definition getItem :: "Storage \<Rightarrow> string \<Rightarrow> string option" where
  "getItem store k = map_of (items store) k"

definition setItem :: "Storage \<Rightarrow> string \<Rightarrow> string \<Rightarrow> js_error + Storage" where
  "setItem store k v =
     (if quota store < usage (AList.update k v (items store)) then Inl QuotaExceededError
      else Inr (store\<lparr>items := AList.update k v (items store)\<rparr>))"

datatype load_result = Loaded "Observation list" | Unchanged | Untyped json

definition loadEffect :: "Storage \<Rightarrow> load_result \<times> effect list" where
  "loadEffect store =
     (case getItem store ''learningWalks'' of
        None \<Rightarrow> (Unchanged, [])
      | Some storedObservations \<Rightarrow>
          if storedObservations = [] then (Unchanged, [])
          else (case JSON_parse storedObservations of
                  Inl e \<Rightarrow>
                    (Unchanged, [ConsoleError ''Failed to load observations from local storage''])
                | Inr v \<Rightarrow>
                    (case observations_ofJSON v of
                       None \<Rightarrow> (Untyped v, [])
                     | Some obss \<Rightarrow> (Loaded obss, []))))"

definition saveEffect :: "Storage \<Rightarrow> Observation list \<Rightarrow> Storage \<times> effect list" where
  "saveEffect store obss =
     (case setItem store ''learningWalks'' (JSON_stringify (observations_toJSON obss)) of
        Inl e \<Rightarrow> (store, [ConsoleError ''Failed to save observations to local storage''])
      | Inr store' \<Rightarrow> (store', []))"

section \<open>Example inputs\<close>

text \<open>The observation of the end-to-end scenario, as a form state, and a state holding it.\<close>

definition exampleForm :: Observation where
  "exampleForm =
     \<lparr>id_str = [], dateTime = ''2024-03-01T09:00'', yearGroup = ''Year 8'',
      teacherName = ''J. Smith'', observationNotes = ''Good pacing.'',
      strategies = initialStrategies\<rparr>"

definition exampleState :: AppState where
  "exampleState =
     \<lparr>observations = [], formState = exampleForm, selectedObservation = None\<rparr>"

text \<open>
  A runtime in a time zone that skips no local time, which reads no string but those of
  the form above, writes the time of day by the characters after the \<^verbatim>\<open>T\<close>, and
  supports the download attribute.
\<close>

definition examplePlatform :: Platform where
  "examplePlatform =
     \<lparr>parseOther = (\<lambda>s. None), resolveLocal = (\<lambda>t. t),
      formatYear = (\<lambda>y. digits 4 (nat y)),
      toLocaleTimeString_hm = drop 11, downloadAttr = True\<rparr>"

text \<open>The state after that observation was saved at 2024-03-01T09:00:00Z.\<close>

definition exampleSaved :: AppState where
  "exampleSaved =
     \<lparr>observations = [exampleForm\<lparr>id_str := ''2024-03-01T09:00:00.000Z''\<rparr>],
      formState = getInitialFormState, selectedObservation = None\<rparr>"

text \<open>An empty store with a quota of five megabytes.\<close>

definition exampleStorage :: Storage where
  "exampleStorage = \<lparr>items = [], quota = 5242880\<rparr>"

section \<open>Saving\<close>

lemma toISOString_nonempty: "toISOString t \<noteq> []"
  by (simp add: toISOString_def Let_def split: prod.splits)

lemma handleSave_valid:
  "isFormValid (formState st) \<Longrightarrow>
   handleSave now st =
     (resetForm (st\<lparr>observations := newObservation now (formState st) # observations st\<rparr>), [])"
  by (simp add: handleSave_def isFormValid_def)

text \<open>
  C3: for every collection and every saveable form state, saving yields the collection
  whose head is the new record and whose tail is the collection as it was: nothing is
  removed, reordered, merged or updated.
\<close>

theorem handleSave_prepends:
  "isFormValid (formState st) \<Longrightarrow>
     observations (fst (handleSave now st))
       = newObservation now (formState st) # observations st \<and>
     tl (observations (fst (handleSave now st))) = observations st \<and>
     length (observations (fst (handleSave now st))) = Suc (length (observations st))"
  by (simp add: handleSave_valid resetForm_def)

theorem handleSave_prepends_witness:
  "isFormValid (formState exampleState) \<and>
   observations (fst (handleSave 1709283600000 exampleState))
     = newObservation 1709283600000 (formState exampleState) # observations exampleState \<and>
   tl (observations (fst (handleSave 1709283600000 exampleState))) = observations exampleState \<and>
   length (observations (fst (handleSave 1709283600000 exampleState)))
     = Suc (length (observations exampleState))"
proof -
  have valid: "isFormValid (formState exampleState)"
    by (simp add: isFormValid_def exampleState_def exampleForm_def)
  from handleSave_prepends [OF valid, of 1709283600000] valid show ?thesis
    by blast
qed

text \<open>
  C1: for every saveable form state, saving produces a new observation whose id is a
  non-empty string and whose dateTime, yearGroup, teacherName, observationNotes and
  strategies are those of the form state.
\<close>

theorem handleSave_creates_record:
  "isFormValid (formState st) \<Longrightarrow>
     (\<exists>n. observations (fst (handleSave now st)) = n # observations st \<and>
          id_str n \<noteq> [] \<and>
          dateTime n = dateTime (formState st) \<and>
          yearGroup n = yearGroup (formState st) \<and>
          teacherName n = teacherName (formState st) \<and>
          observationNotes n = observationNotes (formState st) \<and>
          strategies n = strategies (formState st))"
  by (simp add: handleSave_valid resetForm_def newObservation_def toISOString_nonempty)

theorem handleSave_creates_record_witness:
  "isFormValid (formState exampleState) \<and>
   (\<exists>n. observations (fst (handleSave 1709283600000 exampleState))
          = n # observations exampleState \<and>
        id_str n \<noteq> [] \<and>
        dateTime n = dateTime (formState exampleState) \<and>
        yearGroup n = yearGroup (formState exampleState) \<and>
        teacherName n = teacherName (formState exampleState) \<and>
        observationNotes n = observationNotes (formState exampleState) \<and>
        strategies n = strategies (formState exampleState))"
proof -
  have valid: "isFormValid (formState exampleState)"
    by (simp add: isFormValid_def exampleState_def exampleForm_def)
  from handleSave_creates_record [OF valid, of 1709283600000] valid show ?thesis
    by blast
qed

text \<open>
  C8: when dateTime, teacherName or yearGroup of the form state is empty, saving aborts:
  no record is created, the collection and the form state are as they were, and the
  user is told.
\<close>

theorem handleSave_rejects_incomplete:
  "dateTime (formState st) = [] \<or> teacherName (formState st) = [] \<or>
   yearGroup (formState st) = [] \<Longrightarrow>
     fst (handleSave now st) = st \<and>
     observations (fst (handleSave now st)) = observations st \<and>
     formState (fst (handleSave now st)) = formState st \<and>
     snd (handleSave now st)
       = [Alert ''Please fill in Date/Time, Teacher Name, and Year Group.'']"
  by (simp add: handleSave_def)

theorem handleSave_rejects_incomplete_witness:
  "yearGroup (formState (exampleState\<lparr>formState := exampleForm\<lparr>yearGroup := []\<rparr>\<rparr>)) = [] \<and>
   fst (handleSave 1709283600000 (exampleState\<lparr>formState := exampleForm\<lparr>yearGroup := []\<rparr>\<rparr>))
     = exampleState\<lparr>formState := exampleForm\<lparr>yearGroup := []\<rparr>\<rparr> \<and>
   observations (fst (handleSave 1709283600000
       (exampleState\<lparr>formState := exampleForm\<lparr>yearGroup := []\<rparr>\<rparr>))) = []"
proof -
  have empty: "yearGroup (formState (exampleState\<lparr>formState := exampleForm\<lparr>yearGroup := []\<rparr>\<rparr>)) = []"
    by simp
  then have "dateTime (formState (exampleState\<lparr>formState := exampleForm\<lparr>yearGroup := []\<rparr>\<rparr>)) = [] \<or>
      teacherName (formState (exampleState\<lparr>formState := exampleForm\<lparr>yearGroup := []\<rparr>\<rparr>)) = [] \<or>
      yearGroup (formState (exampleState\<lparr>formState := exampleForm\<lparr>yearGroup := []\<rparr>\<rparr>)) = []"
    by blast
  from handleSave_rejects_incomplete [OF this, of 1709283600000] empty show ?thesis
    by (simp add: exampleState_def)
qed

section \<open>Dates\<close>










lemma example_date:
  "toLocaleDateString_enCA examplePlatform ''2024-03-01T09:00'' = ''2024-03-01''"
  by code_simp

lemma example_time: "toLocaleTimeString_hm examplePlatform s = drop 11 s"
  by (simp add: examplePlatform_def)

section \<open>Exporting\<close>

lemma split_on_nonempty: "split_on c s \<noteq> []"
  by (induction s) (auto split: list.splits)

lemma length_split_on: "length (split_on c s) = Suc (count_list s c)"
  by (induction s) (auto split: list.splits simp: split_on_nonempty)

lemma split_on_append: "split_on c (a @ c # b) = split_on c a @ split_on c b"
  by (induction a) (auto split: list.splits simp: split_on_nonempty)

lemma split_on_line: "c \<notin> set l \<Longrightarrow> split_on c l = [l]"
  by (induction l) auto

lemma split_on_tail4:
  "c \<notin> set y1 \<Longrightarrow> c \<notin> set y2 \<Longrightarrow> c \<notin> set y3 \<Longrightarrow> c \<notin> set y4 \<Longrightarrow>
   split_on c (a @ c # y1 @ c # y2 @ c # y3 @ c # y4) = split_on c a @ [y1, y2, y3, y4]"
  by (simp add: split_on_append split_on_line)

lemma count_list_join:
  "xs \<noteq> [] \<Longrightarrow>
   count_list (join [c] xs) c = length xs - 1 + sum_list (map (\<lambda>x. count_list x c) xs)"
  by (induction "[c]" xs rule: join.induct) auto

lemma replace_quotes_concat:
  \<open>replace_quotes s = concat (map (\<lambda>c. if c = CHR ''"'' then ''""'' else [c]) s)\<close>
  by (induction s) auto

lemma csvRow_unfold:
  "csvRow P obs =
     toLocaleDateString_enCA P (dateTime obs) @ '','' @
     toLocaleTimeString_hm P (dateTime obs) @ '','' @
     yearGroup obs @ '','' @ teacherName obs @ '','' @ sanitizedNotes obs @ '','' @
     (if miniWhiteboards (strategies obs) then ''Y'' else ''N'') @ '','' @
     (if thinkPairShare (strategies obs) then ''Y'' else ''N'') @ '','' @
     (if dumtums (strategies obs) then ''Y'' else ''N'') @ '','' @
     (if coldCalling (strategies obs) then ''Y'' else ''N'')"
  by (simp add: csvRow_def csvFields_def strategyValues_def STRATEGY_KEYS_def)

lemma header_row: "join '','' headers =
   ''Date,Time,Year Group,Teacher Name,Observation Notes,Use of mini whiteboards,Think-Pair-Share,DUMTUMS,Cold calling''"
  by (simp add: headers_def STRATEGY_LABELS_def)

text \<open>
  C5: in every data row the observationNotes field is the notes wrapped in double
  quotes, every double quote of the notes doubled; the notes \<^verbatim>\<open>He said "great job"\<close>
  give the field \<^verbatim>\<open>"He said ""great job"""\<close>.
\<close>

theorem csv_notes_field_quoted:
  \<open>csvFields P obs ! 4 = sanitizedNotes obs \<and>
   sanitizedNotes obs
     = ''"'' @ concat (map (\<lambda>c. if c = CHR ''"'' then ''""'' else [c]) (observationNotes obs))
       @ ''"'' \<and>
   csvRow P obs
     = join '','' (take 4 (csvFields P obs)) @ '','' @ sanitizedNotes obs @ '',''
       @ join '','' (drop 5 (csvFields P obs)) \<and>
   (observationNotes obs = ''He said "great job"''
      \<longrightarrow> csvFields P obs ! 4 = ''"He said ""great job"""'')\<close>
  by (simp add: csvRow_def csvFields_def sanitizedNotes_def replace_quotes_concat
      strategyValues_def STRATEGY_KEYS_def)

theorem csv_notes_field_quoted_witness:
  \<open>observationNotes (exampleForm\<lparr>observationNotes := ''He said "great job"''\<rparr>)
     = ''He said "great job"'' \<and>
   csvFields examplePlatform (exampleForm\<lparr>observationNotes := ''He said "great job"''\<rparr>) ! 4
     = ''"He said ""great job"""''\<close>
  using csv_notes_field_quoted
    [of examplePlatform \<open>exampleForm\<lparr>observationNotes := ''He said "great job"''\<rparr>\<close>]
  by simp

text \<open>
  C6: the last four fields of a data row are, for the strategy keys in the order
  miniWhiteboards, thinkPairShare, dumtums, coldCalling, the letter Y for a true flag
  and N for a false one; the flags true, false, true, false give \<^verbatim>\<open>Y,N,Y,N\<close>.
\<close>

theorem csv_strategy_columns:
  "length (csvFields P obs) = 9 \<and>
   drop 5 (csvFields P obs)
     = [if miniWhiteboards (strategies obs) then ''Y'' else ''N'',
        if thinkPairShare (strategies obs) then ''Y'' else ''N'',
        if dumtums (strategies obs) then ''Y'' else ''N'',
        if coldCalling (strategies obs) then ''Y'' else ''N''] \<and>
   csvRow P obs
     = join '','' (take 5 (csvFields P obs)) @ '','' @ join '','' (drop 5 (csvFields P obs)) \<and>
   (\<exists>front. split_on CHR '','' (csvRow P obs)
      = front @ [if miniWhiteboards (strategies obs) then ''Y'' else ''N'',
                 if thinkPairShare (strategies obs) then ''Y'' else ''N'',
                 if dumtums (strategies obs) then ''Y'' else ''N'',
                 if coldCalling (strategies obs) then ''Y'' else ''N'']) \<and>
   (strategies obs = \<lparr>miniWhiteboards = True, thinkPairShare = False,
                       dumtums = True, coldCalling = False\<rparr>
      \<longrightarrow> join '','' (drop 5 (csvFields P obs)) = ''Y,N,Y,N'')"
proof -
  let ?front = "toLocaleDateString_enCA P (dateTime obs) @ '','' @
      toLocaleTimeString_hm P (dateTime obs) @ '','' @
      yearGroup obs @ '','' @ teacherName obs @ '','' @ sanitizedNotes obs"
  have row: "csvRow P obs
      = ?front @ CHR '','' # (if miniWhiteboards (strategies obs) then ''Y'' else ''N'')
          @ CHR '','' # (if thinkPairShare (strategies obs) then ''Y'' else ''N'')
          @ CHR '','' # (if dumtums (strategies obs) then ''Y'' else ''N'')
          @ CHR '','' # (if coldCalling (strategies obs) then ''Y'' else ''N'')"
    by (simp add: csvRow_unfold)
  have split: "split_on CHR '','' (csvRow P obs)
      = split_on CHR '','' ?front
        @ [if miniWhiteboards (strategies obs) then ''Y'' else ''N'',
           if thinkPairShare (strategies obs) then ''Y'' else ''N'',
           if dumtums (strategies obs) then ''Y'' else ''N'',
           if coldCalling (strategies obs) then ''Y'' else ''N'']"
    unfolding row by (rule split_on_tail4) simp_all
  have last4: "\<exists>front. split_on CHR '','' (csvRow P obs)
      = front @ [if miniWhiteboards (strategies obs) then ''Y'' else ''N'',
                 if thinkPairShare (strategies obs) then ''Y'' else ''N'',
                 if dumtums (strategies obs) then ''Y'' else ''N'',
                 if coldCalling (strategies obs) then ''Y'' else ''N'']"
    by (rule exI, rule split)
  have len: "length (csvFields P obs) = 9"
    and fields: "drop 5 (csvFields P obs)
     = [if miniWhiteboards (strategies obs) then ''Y'' else ''N'',
        if thinkPairShare (strategies obs) then ''Y'' else ''N'',
        if dumtums (strategies obs) then ''Y'' else ''N'',
        if coldCalling (strategies obs) then ''Y'' else ''N'']"
    and joined: "csvRow P obs
     = join '','' (take 5 (csvFields P obs)) @ '','' @ join '','' (drop 5 (csvFields P obs))"
    and example: "strategies obs = \<lparr>miniWhiteboards = True, thinkPairShare = False,
                       dumtums = True, coldCalling = False\<rparr>
      \<longrightarrow> join '','' (drop 5 (csvFields P obs)) = ''Y,N,Y,N''"
    by (simp_all add: csvRow_def csvFields_def strategyValues_def STRATEGY_KEYS_def)
  show ?thesis
    by (intro conjI) (rule len fields joined last4 example)+
qed

theorem csv_strategy_columns_witness:
  "strategies (exampleForm\<lparr>strategies := \<lparr>miniWhiteboards = True, thinkPairShare = False,
       dumtums = True, coldCalling = False\<rparr>\<rparr>)
     = \<lparr>miniWhiteboards = True, thinkPairShare = False, dumtums = True, coldCalling = False\<rparr> \<and>
   join '','' (drop 5 (csvFields examplePlatform
       (exampleForm\<lparr>strategies := \<lparr>miniWhiteboards = True, thinkPairShare = False,
          dumtums = True, coldCalling = False\<rparr>\<rparr>))) = ''Y,N,Y,N''"
  using csv_strategy_columns
    [of examplePlatform "exampleForm\<lparr>strategies := \<lparr>miniWhiteboards = True,
       thinkPairShare = False, dumtums = True, coldCalling = False\<rparr>\<rparr>"]
  by simp

text \<open>
  C7: with an empty collection the export fails: the user is told and nothing is
  downloaded, not even a file with the header alone.
\<close>

theorem handleExport_empty:
  "observations st = [] \<Longrightarrow>
     handleExport P now st = [Alert ''No observations to export.''] \<and>
     (\<forall>name content. Download name content \<notin> set (handleExport P now st))"
  by (simp add: handleExport_def)

theorem handleExport_empty_witness:
  "observations exampleState = [] \<and>
   handleExport examplePlatform 1709283600000 exampleState
     = [Alert ''No observations to export.'']"
proof -
  have empty: "observations exampleState = []"
    by (simp add: exampleState_def)
  from handleExport_empty [OF empty, of examplePlatform 1709283600000] empty
  show ?thesis by blast
qed

lemma count_comma_header: "count_list (join '','' headers) CHR '','' = 8"
  by (simp add: header_row)

lemma count_comma_row:
  "count_list (csvRow P obs) CHR '','' =
     8 + count_list (toLocaleDateString_enCA P (dateTime obs)) CHR '',''
       + count_list (toLocaleTimeString_hm P (dateTime obs)) CHR '',''
       + count_list (yearGroup obs) CHR '',''
       + count_list (teacherName obs) CHR '',''
       + count_list (sanitizedNotes obs) CHR '',''"
  by (simp add: csvRow_unfold)

text \<open>
  C10: yearGroup and teacherName stand in the data row as they are, without quotes or
  escapes; so a teacherName with a comma gives a data row with more comma-separated
  fields than the nine of the header row.
\<close>

theorem csv_names_verbatim:
  "csvFields P obs ! 2 = yearGroup obs \<and>
   csvFields P obs ! 3 = teacherName obs \<and>
   csvRow P obs
     = join '','' (take 2 (csvFields P obs)) @ '','' @ yearGroup obs @ '','' @ teacherName obs
       @ '','' @ join '','' (drop 4 (csvFields P obs)) \<and>
   length (split_on CHR '','' (join '','' headers)) = 9 \<and>
   (CHR '','' \<in> set (teacherName obs) \<longrightarrow>
      length (split_on CHR '','' (join '','' headers))
        < length (split_on CHR '','' (csvRow P obs)))"
proof -
  have "CHR '','' \<in> set (teacherName obs) \<Longrightarrow> 0 < count_list (teacherName obs) CHR '',''"
    using count_list_0_iff [of "teacherName obs" "CHR '',''"] by simp
  moreover have "csvRow P obs
     = join '','' (take 2 (csvFields P obs)) @ '','' @ yearGroup obs @ '','' @ teacherName obs
       @ '','' @ join '','' (drop 4 (csvFields P obs))"
    by (simp add: csvRow_def csvFields_def strategyValues_def STRATEGY_KEYS_def)
  moreover have "csvFields P obs ! 2 = yearGroup obs" "csvFields P obs ! 3 = teacherName obs"
    by (simp_all add: csvFields_def)
  moreover have "length (split_on CHR '','' (join '','' headers)) = 9"
    by (simp add: length_split_on count_comma_header)
  moreover have "length (split_on CHR '','' (join '','' headers))
        < length (split_on CHR '','' (csvRow P obs))" if "CHR '','' \<in> set (teacherName obs)"
    using that calculation(1) by (simp add: length_split_on count_comma_header count_comma_row)
  ultimately show ?thesis
    by blast
qed

theorem csv_names_verbatim_witness:
  "CHR '','' \<in> set (teacherName (exampleForm\<lparr>teacherName := ''Smith, J.''\<rparr>)) \<and>
   csvFields examplePlatform (exampleForm\<lparr>teacherName := ''Smith, J.''\<rparr>) ! 3 = ''Smith, J.'' \<and>
   length (split_on CHR '','' (join '','' headers))
     < length (split_on CHR '','' (csvRow examplePlatform (exampleForm\<lparr>teacherName := ''Smith, J.''\<rparr>)))"
proof -
  have comma: "CHR '','' \<in> set (teacherName (exampleForm\<lparr>teacherName := ''Smith, J.''\<rparr>))"
    and name: "teacherName (exampleForm\<lparr>teacherName := ''Smith, J.''\<rparr>) = ''Smith, J.''"
    by simp_all
  from csv_names_verbatim [of examplePlatform "exampleForm\<lparr>teacherName := ''Smith, J.''\<rparr>"]
  have field: "csvFields examplePlatform (exampleForm\<lparr>teacherName := ''Smith, J.''\<rparr>) ! 3
      = teacherName (exampleForm\<lparr>teacherName := ''Smith, J.''\<rparr>)"
    and more: "CHR '','' \<in> set (teacherName (exampleForm\<lparr>teacherName := ''Smith, J.''\<rparr>)) \<longrightarrow>
      length (split_on CHR '','' (join '','' headers))
        < length (split_on CHR '','' (csvRow examplePlatform (exampleForm\<lparr>teacherName := ''Smith, J.''\<rparr>)))"
    by blast+
  from field have "csvFields examplePlatform (exampleForm\<lparr>teacherName := ''Smith, J.''\<rparr>) ! 3
      = ''Smith, J.''"
    by (simp only: name)
  with comma more show ?thesis
    by blast
qed

lemma count_newline_header: "count_list (join '','' headers) CHR ''\<newline>'' = 0"
  by (simp add: header_row)

text \<open>
  C4, as the code has it: for a non-empty collection the exported string is the header
  row and one row for each observation, in the order of the collection, joined by
  single newlines: 1 + length rows. Split at its newlines it has that many lines and
  one more for every newline inside a row, so exactly 1 + length lines when no row
  holds a newline.
\<close>

theorem csv_rows_and_lines:
  "observations st \<noteq> [] \<Longrightarrow>
     handleExport P now st
       = (if downloadAttr P
          then [Download (exportFileName now) (csvString P (observations st))] else []) \<and>
     csvString P (observations st)
       = join ''\<newline>'' (join '','' headers # map (csvRow P) (observations st)) \<and>
     length (join '','' headers # map (csvRow P) (observations st))
       = 1 + length (observations st) \<and>
     length (split_on CHR ''\<newline>'' (csvString P (observations st)))
       = 1 + length (observations st)
         + sum_list (map (\<lambda>obs. count_list (csvRow P obs) CHR ''\<newline>'') (observations st)) \<and>
     ((\<forall>obs \<in> set (observations st). CHR ''\<newline>'' \<notin> set (csvRow P obs)) \<longrightarrow>
        length (split_on CHR ''\<newline>'' (csvString P (observations st)))
          = 1 + length (observations st))"
proof -
  assume nonempty: "observations st \<noteq> []"
  have lines: "length (split_on CHR ''\<newline>'' (csvString P (observations st)))
       = 1 + length (observations st)
         + sum_list (map (\<lambda>obs. count_list (csvRow P obs) CHR ''\<newline>'') (observations st))"
    by (simp add: csvString_def csvRows_def length_split_on count_list_join
        count_newline_header comp_def)
  have "sum_list (map (\<lambda>obs. count_list (csvRow P obs) CHR ''\<newline>'') (observations st)) = 0"
    if "\<forall>obs \<in> set (observations st). CHR ''\<newline>'' \<notin> set (csvRow P obs)"
    using that by (induction "observations st") (simp_all add: sum_list_eq_0_iff)
  with lines have plain: "(\<forall>obs \<in> set (observations st). CHR ''\<newline>'' \<notin> set (csvRow P obs)) \<longrightarrow>
        length (split_on CHR ''\<newline>'' (csvString P (observations st)))
          = 1 + length (observations st)"
    by simp
  have export: "handleExport P now st
       = (if downloadAttr P
          then [Download (exportFileName now) (csvString P (observations st))] else [])"
    using nonempty by (simp add: handleExport_def)
  have joined: "csvString P (observations st)
       = join ''\<newline>'' (join '','' headers # map (csvRow P) (observations st))"
    by (simp add: csvString_def csvRows_def)
  have rows: "length (join '','' headers # map (csvRow P) (observations st))
       = 1 + length (observations st)"
    by simp
  show ?thesis
    by (intro conjI) (rule export joined rows lines plain)+
qed

theorem csv_rows_and_lines_witness:
  "observations exampleSaved \<noteq> [] \<and>
   length (split_on CHR ''\<newline>'' (csvString examplePlatform (observations exampleSaved))) = 2"
proof -
  have nonempty: "observations exampleSaved \<noteq> []"
    by (simp add: exampleSaved_def)
  have len: "length (observations exampleSaved) = 1"
    by (simp add: exampleSaved_def)
  have zero: "sum_list (map (\<lambda>obs. count_list (csvRow examplePlatform obs) CHR ''\<newline>'')
          (observations exampleSaved)) = 0"
    by (simp add: exampleSaved_def csvRow_unfold example_date example_time exampleForm_def
        sanitizedNotes_def initialStrategies_def)
  from csv_rows_and_lines [OF nonempty, of examplePlatform 1709283600000]
  have "length (split_on CHR ''\<newline>'' (csvString examplePlatform (observations exampleSaved)))
      = 1 + length (observations exampleSaved)
        + sum_list (map (\<lambda>obs. count_list (csvRow examplePlatform obs) CHR ''\<newline>'')
            (observations exampleSaved))"
    by blast
  then have "length (split_on CHR ''\<newline>''
      (csvString examplePlatform (observations exampleSaved))) = 2"
    unfolding len zero by simp
  with nonempty show ?thesis by blast
qed

text \<open>
  C4 as it is stated fails where the notes hold a newline: one observation with the
  notes \<^verbatim>\<open>a\<close>, newline, \<^verbatim>\<open>b\<close> is exported as three lines, not two.
\<close>

theorem csv_line_count_counterexample:
  "length (split_on CHR ''\<newline>''
      (csvString examplePlatform [exampleForm\<lparr>observationNotes := ''a\<newline>b''\<rparr>]))
   \<noteq> 1 + length [exampleForm\<lparr>observationNotes := ''a\<newline>b''\<rparr>]"
  by (simp add: csvString_def csvRows_def csvRow_unfold header_row example_date example_time
      exampleForm_def sanitizedNotes_def initialStrategies_def)

section \<open>Feedback\<close>








section \<open>Persisting\<close>

lemma hex_value_hex_lower: "n < 16 \<Longrightarrow> hex_value (hex_lower n) = Some n"
  by (simp add: hex_value_def hex_lower_def Let_def)

lemma hex_value_zero: "hex_value CHR ''0'' = Some 0"
  by (simp add: hex_value_def)

lemma hex4_control:
  "n < 32 \<Longrightarrow> hex4 [CHR ''0'', CHR ''0'', hex_lower (n div 16), hex_lower (n mod 16)] = Some n"
  by (simp add: hex_value_zero hex_value_hex_lower)

lemma utf8_encode_ascii: "(of_char c :: nat) < 128 \<Longrightarrow> utf8_encode (of_char c) = [c]"
  by (simp add: utf8_encode_def)

lemma parse_chars_quote_char:
  "parse_chars (quote_char c @ rest) = map_option (apfst ((#) c)) (parse_chars rest)"
proof (cases "c \<in> set [CHR 0x22, CHR 0x5C, CHR 0x08, CHR 0x0C, CHR 0x0A, CHR 0x0D, CHR 0x09]")
  case True
  then show ?thesis
    by (auto simp: quote_char_def unescape_def)
next
  case plain: False
  show ?thesis
  proof (cases "(of_char c :: nat) < 32")
    case True
    then have "quote_char c = [CHR 0x5C, CHR ''u'', CHR ''0'', CHR ''0'',
              hex_lower (of_char c div 16), hex_lower (of_char c mod 16)]"
      using plain by (simp add: quote_char_def)
    moreover have "utf8_encode (of_char c) = [c]"
      using True by (simp add: utf8_encode_ascii)
    moreover have "(@) [c] = (#) c"
      by (simp add: fun_eq_iff)
    ultimately show ?thesis
      using True by (simp add: hex4_control del: hex4.simps)
  next
    case False
    then show ?thesis
      using plain by (simp add: quote_char_def)
  qed
qed

lemma parse_chars_quoted:
  "parse_chars (concat (map quote_char s) @ CHR 0x22 # r) = Some (s, r)"
  by (induction s) (simp_all add: parse_chars_quote_char)

lemma stringify_start:
  "\<exists>c cs. JSON_stringify v = c # cs \<and> c \<noteq> CHR '']'' \<and> c \<noteq> CHR ''}''"
  by (cases v) (auto simp: quoteJSONString_def)

lemma parse_elements_join:
  assumes "\<And>v n r. v \<in> set vs \<Longrightarrow> length (JSON_stringify v) \<le> n
             \<Longrightarrow> parse_value n (JSON_stringify v @ r) = Some (v, r)"
    and "vs \<noteq> []"
    and "length (join '','' (map JSON_stringify vs)) < n"
  shows "parse_elements n (join '','' (map JSON_stringify vs) @ CHR '']'' # r) = Some (vs, r)"
  using assms
proof (induction vs arbitrary: n)
  case Nil
  then show ?case by simp
next
  case (Cons v vs)
  from Cons.prems(3) obtain m where n: "n = Suc m"
    by (cases n) auto
  show ?case
  proof (cases vs)
    case Nil
    with Cons.prems(3) n have "length (JSON_stringify v) \<le> m"
      by simp
    then have "parse_value m (JSON_stringify v @ CHR '']'' # r) = Some (v, CHR '']'' # r)"
      using Cons.prems(1) by simp
    with Nil n show ?thesis
      by simp
  next
    case (Cons w ws)
    with Cons.prems(3) n have fuel: "length (JSON_stringify v) \<le> m"
      and rest: "length (join '','' (map JSON_stringify vs)) < m"
      by simp_all
    have "parse_value m (JSON_stringify v @ CHR '','' # join '','' (map JSON_stringify vs) @ CHR '']'' # r)
        = Some (v, CHR '','' # join '','' (map JSON_stringify vs) @ CHR '']'' # r)"
      using fuel Cons.prems(1) by simp
    moreover have "parse_elements m (join '','' (map JSON_stringify vs) @ CHR '']'' # r) = Some (vs, r)"
      using Cons.IH [of m] Cons.prems(1) rest Cons by simp
    ultimately show ?thesis
      using Cons n by simp
  qed
qed

lemma parse_members_join:
  assumes "\<And>kv n r. kv \<in> set kvs \<Longrightarrow> length (JSON_stringify (snd kv)) \<le> n
             \<Longrightarrow> parse_value n (JSON_stringify (snd kv) @ r) = Some (snd kv, r)"
    and "kvs \<noteq> []"
    and "length (join '','' (map (\<lambda>kv. quoteJSONString (fst kv) @ '':'' @ JSON_stringify (snd kv)) kvs)) < n"
  shows "parse_members n
           (join '','' (map (\<lambda>kv. quoteJSONString (fst kv) @ '':'' @ JSON_stringify (snd kv)) kvs)
            @ CHR ''}'' # r) = Some (kvs, r)"
  using assms
proof (induction kvs arbitrary: n)
  case Nil
  then show ?case by simp
next
  case (Cons kv kvs)
  from Cons.prems(3) obtain m where n: "n = Suc m"
    by (cases n) auto
  obtain k v where kv: "kv = (k, v)"
    by (cases kv)
  have key: "parse_chars (concat (map quote_char k) @ CHR 0x22 # x) = Some (k, x)" for x
    by (rule parse_chars_quoted)
  show ?case
  proof (cases kvs)
    case Nil
    with Cons.prems(3) n kv have "length (JSON_stringify v) \<le> m"
      by simp
    then have "parse_value m (JSON_stringify v @ CHR ''}'' # r) = Some (v, CHR ''}'' # r)"
      using Cons.prems(1) [of kv] kv by simp
    with Nil n kv key show ?thesis
      by (simp add: quoteJSONString_def)
  next
    case (Cons kv' kvs')
    let ?rest = "join '','' (map (\<lambda>kv. quoteJSONString (fst kv) @ '':'' @ JSON_stringify (snd kv)) kvs)"
    from Cons Cons.prems(3) n kv have fuel: "length (JSON_stringify v) \<le> m"
      and rest: "length ?rest < m"
      by simp_all
    have "parse_value m (JSON_stringify v @ CHR '','' # ?rest @ CHR ''}'' # r)
        = Some (v, CHR '','' # ?rest @ CHR ''}'' # r)"
      using fuel Cons.prems(1) [of kv] kv by simp
    moreover have "parse_members m (?rest @ CHR ''}'' # r) = Some (kvs, r)"
      using Cons.IH [of m] Cons.prems(1) rest Cons by simp
    ultimately show ?thesis
      using Cons n kv key by (simp add: quoteJSONString_def)
  qed
qed

lemma parse_value_stringify:
  "length (JSON_stringify v) \<le> n \<Longrightarrow> parse_value n (JSON_stringify v @ r) = Some (v, r)"
proof (induction v arbitrary: n r)
  case JNull
  then show ?case by (cases n) simp_all
next
  case (JBool b)
  then show ?case by (cases n; cases b) simp_all
next
  case (JString s)
  then show ?case
    by (cases n) (simp_all add: quoteJSONString_def parse_chars_quoted)
next
  case (JArray vs)
  from JArray.prems obtain m where n: "n = Suc m"
    by (cases n) auto
  show ?case
  proof (cases vs)
    case Nil
    with n show ?thesis by simp
  next
    case (Cons w ws)
    obtain c cs where start: "JSON_stringify w = c # cs" "c \<noteq> CHR '']''"
      using stringify_start [of w] by blast
    have fuel: "length (join '','' (map JSON_stringify vs)) < m"
      using JArray.prems n by simp
    have "parse_elements m (join '','' (map JSON_stringify vs) @ CHR '']'' # r) = Some (vs, r)"
      using JArray.IH Cons fuel by (intro parse_elements_join) auto
    moreover have "\<exists>cs'. join '','' (map JSON_stringify vs) = c # cs'"
      using Cons start by (cases ws) auto
    ultimately show ?thesis
      using n start by auto
  qed
next
  case (JObject kvs)
  from JObject.prems obtain m where n: "n = Suc m"
    by (cases n) auto
  let ?members = "join '','' (map (\<lambda>kv. quoteJSONString (fst kv) @ '':'' @ JSON_stringify (snd kv)) kvs)"
  show ?case
  proof (cases kvs)
    case Nil
    with n show ?thesis by simp
  next
    case (Cons kv kvs')
    have fuel: "length ?members < m"
      using JObject.prems n by simp
    have "parse_members m (?members @ CHR ''}'' # r) = Some (kvs, r)"
    proof (intro parse_members_join)
      fix kv n r
      assume "kv \<in> set kvs" "length (JSON_stringify (snd kv)) \<le> n"
      then show "parse_value n (JSON_stringify (snd kv) @ r) = Some (snd kv, r)"
        using JObject.IH [of kv "snd kv" n r] by (simp add: Basic_BNFs.snds.intros)
    qed (use Cons fuel in auto)
    moreover have "\<exists>cs'. ?members = CHR 0x22 # cs'"
      using Cons by (cases kvs') (auto simp: quoteJSONString_def)
    ultimately show ?thesis
      using n by auto
  qed
qed

lemma JSON_roundtrip: "JSON_parse (JSON_stringify v) = Inr v"
  using parse_value_stringify [of v "length (JSON_stringify v)" "[]"]
  by (simp add: JSON_parse_def)

lemma observation_ofJSON_toJSON: "observation_ofJSON (observation_toJSON obs) = Some obs"
  by (simp add: observation_toJSON_def strategies_toJSON_def get_prop_def)

lemma observations_ofJSON_toJSON: "observations_ofJSON (observations_toJSON obss) = Some obss"
  by (induction obss) (simp_all add: observations_toJSON_def observation_ofJSON_toJSON)

lemma getItem_setItem: "setItem store k v = Inr store' \<Longrightarrow> getItem store' k = Some v"
  by (auto simp: setItem_def getItem_def update_conv' split: if_splits)

lemma stringify_observations_nonempty: "JSON_stringify (observations_toJSON obss) \<noteq> []"
  by (simp add: observations_toJSON_def)

lemma loadEffect_stored:
  "getItem store ''learningWalks'' = Some (JSON_stringify (observations_toJSON obss))
   \<Longrightarrow> loadEffect store = (Loaded obss, [])"
  by (simp add: loadEffect_def stringify_observations_nonempty JSON_roundtrip
      observations_ofJSON_toJSON)

lemma saveEffect_written:
  "snd (saveEffect store obss) = [] \<Longrightarrow>
   setItem store ''learningWalks'' (JSON_stringify (observations_toJSON obss))
     = Inr (fst (saveEffect store obss))"
  by (cases "setItem store ''learningWalks'' (JSON_stringify (observations_toJSON obss))")
     (simp_all add: saveEffect_def)

text \<open>
  C2: for every collection of observations, the text that saving writes is read back by
  loading as the same collection, field for field and in the same order: parsing
  inverts serialising, the typed reading inverts the object layout, and a slot that
  took the write gives the collection back.
\<close>

theorem persist_roundtrip:
  "JSON_parse (JSON_stringify (observations_toJSON obss)) = Inr (observations_toJSON obss) \<and>
   observations_ofJSON (observations_toJSON obss) = Some obss \<and>
   (snd (saveEffect store obss) = [] \<longrightarrow>
      loadEffect (fst (saveEffect store obss)) = (Loaded obss, []))"
proof (intro conjI impI)
  show "JSON_parse (JSON_stringify (observations_toJSON obss)) = Inr (observations_toJSON obss)"
    by (rule JSON_roundtrip)
  show "observations_ofJSON (observations_toJSON obss) = Some obss"
    by (rule observations_ofJSON_toJSON)
  assume "snd (saveEffect store obss) = []"
  then have "getItem (fst (saveEffect store obss)) ''learningWalks''
      = Some (JSON_stringify (observations_toJSON obss))"
    by (rule getItem_setItem [OF saveEffect_written])
  then show "loadEffect (fst (saveEffect store obss)) = (Loaded obss, [])"
    by (rule loadEffect_stored)
qed

theorem persist_roundtrip_witness:
  "snd (saveEffect exampleStorage (observations exampleSaved)) = [] \<and>
   loadEffect (fst (saveEffect exampleStorage (observations exampleSaved)))
     = (Loaded (observations exampleSaved), [])"
proof -
  have written: "snd (saveEffect exampleStorage (observations exampleSaved)) = []"
    by (simp add: saveEffect_def setItem_def exampleStorage_def usage_def exampleSaved_def
        exampleForm_def observations_toJSON_def observation_toJSON_def strategies_toJSON_def
        initialStrategies_def quoteJSONString_def quote_char_def)
  with persist_roundtrip [of "observations exampleSaved" exampleStorage] show ?thesis
    by blast
qed

end
